theory Spec2Isabelle
  imports Main
begin

section \<open>Common vocabulary\<close>

text \<open>
  Values thrown by an awaited call, or carried in the \<open>error\<close> field of a backend reply.
  The code never inspects them: it logs them and throws them again.
\<close>

datatype error = Error string

text \<open>
  An \<open>await\<close> either yields the value the promise resolved to, or throws the value it was
  rejected with. Every operation below takes the outcome of each call it awaits as an
  argument, so that both branches of every \<open>try\<close>/\<open>catch\<close> are branches of the model.
\<close>

datatype 'a awaited = Resolved 'a | Rejected error

text \<open>
  The reply of the profile table: the code destructures \<open>error\<close> (and, when it selects,
  \<open>data\<close>) and ignores everything else.
\<close>

record 'd PostgrestResponse =
  resp_data :: 'd
  resp_error :: "error option"

text \<open>A remote write has succeeded when the awaited call resolved with a null \<open>error\<close>.\<close>

fun succeeded :: "'d PostgrestResponse awaited \<Rightarrow> bool" where
  "succeeded (Resolved r) = (resp_error r = None)"
| "succeeded (Rejected e) = False"

text \<open>
  \<open>a || b\<close> on a possibly missing string: the left operand is falsy when it is null,
  undefined or the empty string. An array is always truthy, also when empty.
\<close>

fun or_string :: "string option \<Rightarrow> string \<Rightarrow> string" where
  "or_string None d = d"
| "or_string (Some v) d = (if v = [] then d else v)"

fun or_value :: "'a option \<Rightarrow> 'a \<Rightarrow> 'a" where
  "or_value None d = d"
| "or_value (Some v) d = v"

section \<open>Session Store: \<open>src/contexts/AuthContext.tsx\<close>\<close>

subsection \<open>Data\<close>

text \<open>
  Content ids and genre ids are integers (JavaScript numbers that come from JSON integer
  columns); on integers \<open>!==\<close> and \<open>includes\<close> agree with equality.
\<close>

record UserProfile =
  user_id :: string
  username :: string
  email :: string
  avatar :: string
  genre_preferences :: "int list"
  onboarding_completed :: bool
  watchlist :: "int list"

text \<open>\<open>Partial<UserProfile>\<close>: every field may be absent.\<close>

record UserProfileUpdates =
  upd_id :: "string option"
  upd_username :: "string option"
  upd_email :: "string option"
  upd_avatar :: "string option"
  upd_genre_preferences :: "int list option"
  upd_onboarding_completed :: "bool option"
  upd_watchlist :: "int list option"

text \<open>The principal of the auth provider, and the provider's session that carries it.\<close>

record User =
  auth_id :: string
  auth_email :: "string option"

record Session =
  access_token :: string
  session_user :: "User option"

text \<open>A row of the \<open>profiles\<close> table; nullable columns are options.\<close>

record ProfileRow =
  row_id :: string
  row_username :: string
  row_avatar :: "string option"
  row_genre_preferences :: "int list option"
  row_onboarding_completed :: "bool option"
  row_watchlist :: "int list option"

text \<open>The three \<open>useState\<close> cells of \<open>AuthProvider\<close>.\<close>

record AuthState =
  user :: "UserProfile option"
  session :: "Session option"
  loading :: bool

definition initial_AuthState :: AuthState where
  "initial_AuthState = \<lparr>user = None, session = None, loading = True\<rparr>"

text \<open>What is written by an \<open>update\<close> on the \<open>profiles\<close> table.\<close>

datatype payload =
    WatchlistPayload "int list"
  | OnboardingPayload string "int list" bool
  | PartialPayload UserProfileUpdates

text \<open>Work handed to \<open>setTimeout\<close>: the closure keeps the principal of the event.\<close>

datatype task = LoadUserProfileTask User

text \<open>
  Everything an operation does outside the three state cells, in the order it does it:
  calls to the backend, console output, full-page navigation, timers.
\<close>

datatype effect =
    ProfilesSelect string
  | ProfilesUpdate payload string
  | SignOutGlobal
  | Navigate string
  | ConsoleLog string
  | ConsoleError string error
  | SetTimeout task nat

text \<open>The fallback avatar is U+1F464, written here as its four UTF-8 bytes.\<close>

definition default_avatar :: string where
  "default_avatar = [CHR 0xF0, CHR 0x9F, CHR 0x91, CHR 0xA4]"

subsection \<open>Operations\<close>

text \<open>
  An operation takes the state of the render it is called from and the outcome of the
  call it awaits; it returns what the promise settles to (\<open>Inl\<close> is a rejection), the
  state after its \<open>setState\<close> calls, and its effects.
\<close>

definition loadUserProfile ::
  "User \<Rightarrow> ProfileRow option PostgrestResponse awaited \<Rightarrow> AuthState \<Rightarrow> AuthState \<times> effect list" where
  "loadUserProfile authUser reply s =
     (case reply of
        Rejected e \<Rightarrow>
          (s, [ProfilesSelect (auth_id authUser), ConsoleError ''Error in loadUserProfile:'' e])
      | Resolved r \<Rightarrow>
          (case resp_error r of
             Some e \<Rightarrow>
               (s, [ProfilesSelect (auth_id authUser), ConsoleError ''Error loading profile:'' e])
           | None \<Rightarrow>
               (case resp_data r of
                  None \<Rightarrow> (s, [ProfilesSelect (auth_id authUser)])
                | Some profile \<Rightarrow>
                    (s\<lparr>user := Some
                        \<lparr>user_id = row_id profile,
                         username = row_username profile,
                         email = or_string (auth_email authUser) [],
                         avatar = or_string (row_avatar profile) default_avatar,
                         genre_preferences = or_value (row_genre_preferences profile) [],
                         onboarding_completed = or_value (row_onboarding_completed profile) False,
                         watchlist = or_value (row_watchlist profile) []\<rparr>\<rparr>,
                     [ProfilesSelect (auth_id authUser)]))))"

text \<open>
  The handler given to \<open>onAuthStateChange\<close>. It has no \<open>await\<close>, so all of it runs inside
  the provider's callback; the profile load is only handed to \<open>setTimeout\<close>.
\<close>

definition onAuthStateChange ::
  "string \<Rightarrow> Session option \<Rightarrow> AuthState \<Rightarrow> AuthState \<times> effect list" where
  "onAuthStateChange event sess s =
     (let s1 = s\<lparr>session := sess\<rparr> in
      case (if event = ''SIGNED_IN'' then Option.bind sess session_user else None) of
        Some authUser \<Rightarrow>
          (s1, [ConsoleLog ''Auth state changed:'', SetTimeout (LoadUserProfileTask authUser) 0])
      | None \<Rightarrow>
          if event = ''SIGNED_OUT''
          then (s1\<lparr>user := None, loading := False\<rparr>, [ConsoleLog ''Auth state changed:''])
          else (s1, [ConsoleLog ''Auth state changed:'']))"

text \<open>The timer callback: \<open>await loadUserProfile(session.user); setLoading(false)\<close>.\<close>

fun run_task ::
  "task \<Rightarrow> ProfileRow option PostgrestResponse awaited \<Rightarrow> AuthState \<Rightarrow> AuthState \<times> effect list" where
  "run_task (LoadUserProfileTask authUser) reply s =
     (case loadUserProfile authUser reply s of
        (s1, effs) \<Rightarrow> (s1\<lparr>loading := False\<rparr>, effs))"

text \<open>
  The reply of the auth provider as the calls of this file read it
  (\<open>const { data, error } = await supabase.auth.signInWithPassword(...)\<close> and
  \<open>if (error) throw error\<close> in \<open>login\<close> and \<open>signup\<close>): a failure of the provider is the
  \<open>error\<close> field of the value the call resolves to.
\<close>

record AuthReply =
  auth_error :: "error option"

text \<open>\<open>logout\<close> awaits the sign-out and does not bind what it resolves to.\<close>

definition logout :: "'r awaited \<Rightarrow> AuthState \<Rightarrow> (error + unit) \<times> AuthState \<times> effect list" where
  "logout reply s =
     (case reply of
        Resolved r \<Rightarrow>
          (Inr (), s\<lparr>user := None, session := None\<rparr>, [SignOutGlobal, Navigate ''/auth''])
      | Rejected e \<Rightarrow>
          (Inl e, s, [SignOutGlobal, ConsoleError ''Logout error:'' e]))"

text \<open>
  \<open>{ ...user, ...updates }\<close>: a field present in the updates replaces the user's. A key
  that is present with the value undefined is not represented.
\<close>

definition merge_updates :: "UserProfile \<Rightarrow> UserProfileUpdates \<Rightarrow> UserProfile" where
  "merge_updates u updates =
     \<lparr>user_id = or_value (upd_id updates) (user_id u),
      username = or_value (upd_username updates) (username u),
      email = or_value (upd_email updates) (email u),
      avatar = or_value (upd_avatar updates) (avatar u),
      genre_preferences = or_value (upd_genre_preferences updates) (genre_preferences u),
      onboarding_completed = or_value (upd_onboarding_completed updates) (onboarding_completed u),
      watchlist = or_value (upd_watchlist updates) (watchlist u)\<rparr>"

text \<open>
  The four mutations share one shape: return at once without a user; otherwise write,
  throw the reply's error if it has one, and only then store the locally computed user.
\<close>

definition write_then_set ::
  "string \<Rightarrow> payload \<Rightarrow> UserProfile \<Rightarrow> UserProfile \<Rightarrow> 'd PostgrestResponse awaited \<Rightarrow> AuthState
     \<Rightarrow> (error + unit) \<times> AuthState \<times> effect list" where
  "write_then_set msg p u u' reply s =
     (case reply of
        Rejected e \<Rightarrow> (Inl e, s, [ProfilesUpdate p (user_id u), ConsoleError msg e])
      | Resolved r \<Rightarrow>
          (case resp_error r of
             Some e \<Rightarrow> (Inl e, s, [ProfilesUpdate p (user_id u), ConsoleError msg e])
           | None \<Rightarrow> (Inr (), s\<lparr>user := Some u'\<rparr>, [ProfilesUpdate p (user_id u)])))"

definition updateProfile ::
  "UserProfileUpdates \<Rightarrow> 'd PostgrestResponse awaited \<Rightarrow> AuthState
     \<Rightarrow> (error + unit) \<times> AuthState \<times> effect list" where
  "updateProfile updates reply s =
     (case user s of
        None \<Rightarrow> (Inr (), s, [])
      | Some u \<Rightarrow>
          write_then_set ''Error updating profile:'' (PartialPayload updates)
            u (merge_updates u updates) reply s)"

definition completeOnboarding ::
  "string \<Rightarrow> int list \<Rightarrow> 'd PostgrestResponse awaited \<Rightarrow> AuthState
     \<Rightarrow> (error + unit) \<times> AuthState \<times> effect list" where
  "completeOnboarding avatar' genres reply s =
     (case user s of
        None \<Rightarrow> (Inr (), s, [])
      | Some u \<Rightarrow>
          write_then_set ''Error completing onboarding:'' (OnboardingPayload avatar' genres True)
            u (u\<lparr>avatar := avatar', genre_preferences := genres, onboarding_completed := True\<rparr>)
            reply s)"

definition addToWatchlist ::
  "int \<Rightarrow> 'd PostgrestResponse awaited \<Rightarrow> AuthState \<Rightarrow> (error + unit) \<times> AuthState \<times> effect list" where
  "addToWatchlist movieId reply s =
     (case user s of
        None \<Rightarrow> (Inr (), s, [])
      | Some u \<Rightarrow>
          (let updatedWatchlist = watchlist u @ [movieId] in
           write_then_set ''Error adding to watchlist:'' (WatchlistPayload updatedWatchlist)
             u (u\<lparr>watchlist := updatedWatchlist\<rparr>) reply s))"

definition removeFromWatchlist ::
  "int \<Rightarrow> 'd PostgrestResponse awaited \<Rightarrow> AuthState \<Rightarrow> (error + unit) \<times> AuthState \<times> effect list" where
  "removeFromWatchlist movieId reply s =
     (case user s of
        None \<Rightarrow> (Inr (), s, [])
      | Some u \<Rightarrow>
          (let updatedWatchlist = filter (\<lambda>i. i \<noteq> movieId) (watchlist u) in
           write_then_set ''Error removing from watchlist:'' (WatchlistPayload updatedWatchlist)
             u (u\<lparr>watchlist := updatedWatchlist\<rparr>) reply s))"

text \<open>\<open>user?.watchlist.includes(movieId) || false\<close>\<close>

definition isInWatchlist :: "int \<Rightarrow> AuthState \<Rightarrow> bool" where
  "isInWatchlist movieId s =
     (case user s of None \<Rightarrow> False | Some u \<Rightarrow> movieId \<in> set (watchlist u))"

subsection \<open>Reading the effects\<close>

fun navigations :: "effect list \<Rightarrow> string list" where
  "navigations [] = []"
| "navigations (Navigate p # es) = p # navigations es"
| "navigations (e # es) = navigations es"

fun remote_writes :: "effect list \<Rightarrow> (payload \<times> string) list" where
  "remote_writes [] = []"
| "remote_writes (ProfilesUpdate p i # es) = (p, i) # remote_writes es"
| "remote_writes (e # es) = remote_writes es"

fun remote_reads :: "effect list \<Rightarrow> string list" where
  "remote_reads [] = []"
| "remote_reads (ProfilesSelect i # es) = i # remote_reads es"
| "remote_reads (e # es) = remote_reads es"

fun timeouts :: "effect list \<Rightarrow> task list" where
  "timeouts [] = []"
| "timeouts (SetTimeout t d # es) = t # timeouts es"
| "timeouts (e # es) = timeouts es"

subsection \<open>The event loop around the store\<close>

text \<open>
  The provider calls the handler with an event; a timer set by \<open>setTimeout\<close> fires in a
  later turn, in the order the timers were set. The backend reply consumed by a firing
  timer is part of the occurrence.
\<close>

record Runtime =
  auth :: AuthState
  timers :: "task list"

datatype occurrence =
    AuthEvent string "Session option"
  | TimerFires "ProfileRow option PostgrestResponse awaited"

fun occur :: "occurrence \<Rightarrow> Runtime \<Rightarrow> Runtime" where
  "occur (AuthEvent event sess) rt =
     (case onAuthStateChange event sess (auth rt) of
        (s1, effs) \<Rightarrow> rt\<lparr>auth := s1, timers := timers rt @ timeouts effs\<rparr>)"
| "occur (TimerFires reply) rt =
     (case timers rt of
        [] \<Rightarrow> rt
      | t # ts \<Rightarrow> (case run_task t reply (auth rt) of (s1, effs) \<Rightarrow> rt\<lparr>auth := s1, timers := ts\<rparr>))"

definition initial_Runtime :: Runtime where
  "initial_Runtime = \<lparr>auth = initial_AuthState, timers = []\<rparr>"

subsection \<open>Sequences of watchlist calls\<close>

datatype watchlist_call = Add int | Remove int

text \<open>
  The operations are closures of the render that created them: the user they test,
  read the watchlist of and spread into \<open>setUser\<close> is that render's user, and \<open>setUser\<close> is
  given a value, not an updater. \<open>addToWatchlist\<close> and \<open>removeFromWatchlist\<close> above are a
  call through a render of the current store. Below, the render a call goes through
  and the store in which its \<open>setUser\<close> lands are kept apart.
\<close>

definition addToWatchlist_through ::
  "AuthState \<Rightarrow> int \<Rightarrow> 'd PostgrestResponse awaited \<Rightarrow> AuthState
     \<Rightarrow> (error + unit) \<times> AuthState \<times> effect list" where
  "addToWatchlist_through rendered movieId reply s =
     (case user rendered of
        None \<Rightarrow> (Inr (), s, [])
      | Some u \<Rightarrow>
          (let updatedWatchlist = watchlist u @ [movieId] in
           write_then_set ''Error adding to watchlist:'' (WatchlistPayload updatedWatchlist)
             u (u\<lparr>watchlist := updatedWatchlist\<rparr>) reply s))"

definition removeFromWatchlist_through ::
  "AuthState \<Rightarrow> int \<Rightarrow> 'd PostgrestResponse awaited \<Rightarrow> AuthState
     \<Rightarrow> (error + unit) \<times> AuthState \<times> effect list" where
  "removeFromWatchlist_through rendered movieId reply s =
     (case user rendered of
        None \<Rightarrow> (Inr (), s, [])
      | Some u \<Rightarrow>
          (let updatedWatchlist = filter (\<lambda>i. i \<noteq> movieId) (watchlist u) in
           write_then_set ''Error removing from watchlist:'' (WatchlistPayload updatedWatchlist)
             u (u\<lparr>watchlist := updatedWatchlist\<rparr>) reply s))"

fun call_watchlist ::
  "AuthState \<Rightarrow> watchlist_call \<Rightarrow> 'd PostgrestResponse awaited \<Rightarrow> AuthState
     \<Rightarrow> (error + unit) \<times> AuthState \<times> effect list" where
  "call_watchlist rendered (Add movieId) reply s = addToWatchlist_through rendered movieId reply s"
| "call_watchlist rendered (Remove movieId) reply s = removeFromWatchlist_through rendered movieId reply s"

text \<open>
  What happens to a mounted consumer of the store: it makes a call through the render
  it holds, or it is rendered again and from then on holds a render of the current
  store. A call is listed where its write returns.
\<close>

datatype 'd ui_step = Rerender | Call watchlist_call "'d PostgrestResponse awaited"

text \<open>The pair is the render held and the store.\<close>

fun run_steps :: "'d ui_step list \<Rightarrow> AuthState \<times> AuthState \<Rightarrow> AuthState \<times> AuthState" where
  "run_steps [] (rendered, s) = (rendered, s)"
| "run_steps (Rerender # rest) (rendered, s) = run_steps rest (s, s)"
| "run_steps (Call c reply # rest) (rendered, s) =
     run_steps rest (rendered, fst (snd (call_watchlist rendered c reply s)))"

text \<open>Calls of which each one is made through a render of the store the one before left.\<close>

fun each_rendered :: "(watchlist_call \<times> 'd PostgrestResponse awaited) list \<Rightarrow> 'd ui_step list" where
  "each_rendered [] = []"
| "each_rendered ((c, reply) # rest) = Rerender # Call c reply # each_rendered rest"

text \<open>
  The specification's reading of a call sequence: append for an add, filter out every
  equal element for a remove, folded in call order.
\<close>

fun spec_step :: "watchlist_call \<Rightarrow> int list \<Rightarrow> int list" where
  "spec_step (Add movieId) w = w @ [movieId]"
| "spec_step (Remove movieId) w = filter (\<lambda>x. x \<noteq> movieId) w"

definition spec_watchlist :: "watchlist_call list \<Rightarrow> int list \<Rightarrow> int list" where
  "spec_watchlist calls w = fold spec_step calls w"

subsection \<open>Concrete values\<close>

definition alice :: UserProfile where
  "alice = \<lparr>user_id = ''u1'', username = ''alice'', email = ''alice@example.org'',
            avatar = ''A'', genre_preferences = [28], onboarding_completed = True,
            watchlist = [550, 13, 550]\<rparr>"

definition alice_principal :: User where
  "alice_principal = \<lparr>auth_id = ''u1'', auth_email = Some ''alice@example.org''\<rparr>"

definition alice_session :: Session where
  "alice_session = \<lparr>access_token = ''t0'', session_user = Some alice_principal\<rparr>"

definition alice_row :: ProfileRow where
  "alice_row = \<lparr>row_id = ''u1'', row_username = ''alice'', row_avatar = Some ''A'',
                row_genre_preferences = Some [28], row_onboarding_completed = Some True,
                row_watchlist = Some [550, 13, 550]\<rparr>"

definition signed_in :: AuthState where
  "signed_in = \<lparr>user = Some alice, session = Some alice_session, loading = False\<rparr>"

definition ok :: "'d \<Rightarrow> 'd PostgrestResponse awaited" where
  "ok d = Resolved \<lparr>resp_data = d, resp_error = None\<rparr>"

text \<open>
  A sign-in event, then a sign-out event, then the profile query of the timer set by the
  sign-in answers (the closure still holds the principal of the sign-in event): the
  session is null and the user is not.
\<close>

definition signed_out_before_load :: Runtime where
  "signed_out_before_load =
     occur (TimerFires (ok (Some alice_row)))
       (occur (AuthEvent ''SIGNED_OUT'' None)
          (occur (AuthEvent ''SIGNED_IN'' (Some alice_session)) initial_Runtime))"

section \<open>Signup form: \<open>SignupForm\<close>\<close>

record SignupForm =
  form_username :: string
  form_email :: string
  password :: string
  confirmPassword :: string
  showPassword :: bool
  isLoading :: bool

datatype form_effect =
    PreventDefault
  | SetIsLoading bool
  | CallSignup string string string
  | FormConsoleError string error

text \<open>
  \<open>handleSubmit\<close>. The argument is the outcome of the awaited \<open>signup(email, password,
  username)\<close>; it is consumed only when the two checks let the submission through.
\<close>

definition handleSubmit :: "bool awaited \<Rightarrow> SignupForm \<Rightarrow> SignupForm \<times> form_effect list" where
  "handleSubmit reply f =
     (if password f \<noteq> confirmPassword f then (f, [PreventDefault])
      else if length (password f) < 6 then (f, [PreventDefault])
      else
        (f\<lparr>isLoading := False\<rparr>,
         [PreventDefault, SetIsLoading True, CallSignup (form_email f) (password f) (form_username f)]
         @ (case reply of
              Resolved b \<Rightarrow> []
            | Rejected e \<Rightarrow> [FormConsoleError ''Signup failed:'' e])
         @ [SetIsLoading False]))"

fun signup_calls :: "form_effect list \<Rightarrow> (string \<times> string \<times> string) list" where
  "signup_calls [] = []"
| "signup_calls (CallSignup e p u # es) = (e, p, u) # signup_calls es"
| "signup_calls (x # es) = signup_calls es"

definition blank_form :: SignupForm where
  "blank_form = \<lparr>form_username = ''bob'', form_email = ''bob@example.org'', password = [],
                 confirmPassword = [], showPassword = False, isLoading = False\<rparr>"

section \<open>Content Detail View: \<open>src/pages/DetailPage.tsx\<close>\<close>

subsection \<open>Data\<close>

text \<open>
  Modelled from the spec: the \<open>Movie\<close> type of \<open>@/services/tmdb\<close> is not among the sources;
  the fields are those of the specification's Content shape that the derived display
  fields read. Optional and alternate fields are options; a runtime is a whole number
  of minutes.
\<close>

record Movie =
  movie_id :: int
  title :: "string option"
  name :: "string option"
  backdrop_path :: "string option"
  release_date :: "string option"
  first_air_date :: "string option"
  runtime :: "nat option"
  number_of_seasons :: "nat option"

text \<open>The \<open>useState\<close> cells of \<open>DetailPage\<close>.\<close>

record DetailPage =
  content :: "Movie option"
  page_loading :: bool
  isPlaying :: bool

definition initial_DetailPage :: DetailPage where
  "initial_DetailPage = \<lparr>content = None, page_loading = True, isPlaying = False\<rparr>"

text \<open>\<open>'n\<close> is what \<open>parseInt\<close> returns; the page only passes it on to the metadata client.\<close>

datatype 'n page_effect =
    PageLog string
  | PageError string error
  | GetMovieDetails 'n
  | GetTVDetails 'n
  | Toast string string bool
  | CallAddToWatchlist int
  | CallRemoveFromWatchlist int

text \<open>
  The value of \<open>x && element\<close> in JSX: the element when \<open>x\<close> is truthy, otherwise \<open>x\<close>
  itself, which is the empty string, a number (zero) or undefined.
\<close>

datatype 'e slot = Shown 'e | EmptyString | Number nat | Undefined

record 'y DetailView =
  view_title :: string
  view_backdropUrl :: string
  view_year :: "'y slot"
  view_runtime :: "(nat \<times> nat) slot"
  view_seasons :: "(nat \<times> string) slot"
  view_watchlist_button :: "bool option"
  view_player :: "(string \<times> int \<times> string) option"

text \<open>
  The three returns of the component. The "not found" view shows the type and the id and
  has one button, whose target is its third argument.
\<close>

datatype 'y view =
    LoadingView
  | NotFoundView string "string option" string
  | DetailsView "'y DetailView"

subsection \<open>Operations\<close>

text \<open>\<open>location.pathname.startsWith('/movie/') ? 'movie' : 'tv'\<close>\<close>

definition type_of_pathname :: "string \<Rightarrow> string" where
  "type_of_pathname pathname = (if take 7 pathname = ''/movie/'' then ''movie'' else ''tv'')"

text \<open>
  \<open>fetchContent\<close>, with \<open>parseInt\<close> and the outcome of the awaited metadata call as
  arguments. The state returned is the one after \<open>finally\<close>.
\<close>

definition fetchContent ::
  "(string \<Rightarrow> 'n) \<Rightarrow> string option \<Rightarrow> string \<Rightarrow> Movie awaited \<Rightarrow> DetailPage
     \<Rightarrow> DetailPage \<times> 'n page_effect list" where
  "fetchContent parseInt id' type' reply v =
     (if or_string id' [] = [] then (v\<lparr>page_loading := False\<rparr>, [PageLog ''No id provided''])
      else
        (let call = (if type' = ''movie'' then GetMovieDetails (parseInt (or_string id' []))
                     else GetTVDetails (parseInt (or_string id' [])))
         in case reply of
              Resolved data \<Rightarrow>
                (v\<lparr>content := Some data, page_loading := False\<rparr>,
                 [PageLog ''Fetching'', call, PageLog ''Fetched content:''])
            | Rejected e \<Rightarrow>
                (v\<lparr>page_loading := False\<rparr>,
                 [PageLog ''Fetching'', call, PageError ''Error fetching content:'' e,
                  Toast ''Error'' ''Failed to load content details.'' True])))"

text \<open>The effect that runs on mount and whenever the type or the id changes.\<close>

definition visit ::
  "(string \<Rightarrow> 'n) \<Rightarrow> string option \<Rightarrow> string \<Rightarrow> Movie awaited \<Rightarrow> DetailPage
     \<Rightarrow> DetailPage \<times> 'n page_effect list" where
  "visit parseInt id' type' reply v =
     (if or_string id' [] \<noteq> []
      then (case fetchContent parseInt id' type' reply v of
              (v1, effs) \<Rightarrow> (v1, PageLog ''Fetching content for:'' # effs))
      else (v\<lparr>page_loading := False\<rparr>, [PageLog ''Missing id:'']))"

definition display_title :: "Movie \<Rightarrow> string" where
  "display_title c = or_string (title c) (or_string (name c) ''Unknown Title'')"

definition handleWatch :: "AuthState \<Rightarrow> DetailPage \<Rightarrow> DetailPage \<times> 'n page_effect list" where
  "handleWatch a v =
     (case user a of
        None \<Rightarrow> (v, [Toast ''Sign in required'' ''Please sign in to watch content.'' True])
      | Some u \<Rightarrow> (v\<lparr>isPlaying := True\<rparr>, []))"

definition handleWatchlistToggle :: "AuthState \<Rightarrow> DetailPage \<Rightarrow> 'n page_effect list" where
  "handleWatchlistToggle a v =
     (case user a of
        None \<Rightarrow> [Toast ''Sign in required'' ''Please sign in to add items to your watchlist.'' True]
      | Some u \<Rightarrow>
          (case content v of
             None \<Rightarrow>
               [Toast ''Sign in required'' ''Please sign in to add items to your watchlist.'' True]
           | Some c \<Rightarrow>
               if isInWatchlist (movie_id c) a
               then [CallRemoveFromWatchlist (movie_id c),
                     Toast ''Removed from watchlist''
                       (display_title c @ '' has been removed from your watchlist.'') False]
               else [CallAddToWatchlist (movie_id c),
                     Toast ''Added to watchlist''
                       (display_title c @ '' has been added to your watchlist.'') False]))"

fun watchlist_calls :: "'n page_effect list \<Rightarrow> watchlist_call list" where
  "watchlist_calls [] = []"
| "watchlist_calls (CallAddToWatchlist i # es) = Add i # watchlist_calls es"
| "watchlist_calls (CallRemoveFromWatchlist i # es) = Remove i # watchlist_calls es"
| "watchlist_calls (e # es) = watchlist_calls es"


text \<open>
  What the component returns, reduced to the branch taken and the derived display
  fields. \<open>getFullYear\<close> stands for \<open>new Date(releaseDate).getFullYear()\<close> of the platform.
  The rating, the overview, the genres and the cast are passed through without
  computation and are left out.
\<close>

definition render ::
  "(string \<Rightarrow> 'y) \<Rightarrow> string option \<Rightarrow> string \<Rightarrow> AuthState \<Rightarrow> DetailPage \<Rightarrow> 'y view" where
  "render getFullYear id' type' a v =
     (if page_loading v then LoadingView
      else case content v of
        None \<Rightarrow> NotFoundView type' id' ''/''
      | Some c \<Rightarrow>
          (let title' = display_title c;
               releaseDate = or_string (release_date c) (or_string (first_air_date c) []);
               backdropUrl =
                 (if or_string (backdrop_path c) [] \<noteq> []
                  then ''https://image.tmdb.org/t/p/original'' @ or_string (backdrop_path c) []
                  else ''https://images.unsplash.com/photo-1489599904276-39c2bb2d7b64?w=1920&h=1080&fit=crop'')
           in DetailsView
               \<lparr>view_title = title',
                view_backdropUrl = backdropUrl,
                view_year = (if releaseDate = [] then EmptyString else Shown (getFullYear releaseDate)),
                view_runtime =
                  (case runtime c of
                     None \<Rightarrow> Undefined
                   | Some r \<Rightarrow> if r = 0 then Number 0 else Shown (r div 60, r mod 60)),
                view_seasons =
                  (case number_of_seasons c of
                     None \<Rightarrow> Undefined
                   | Some n \<Rightarrow> if n = 0 then Number 0 else Shown (n, if n > 1 then ''s'' else [])),
                view_watchlist_button =
                  (case user a of None \<Rightarrow> None | Some u \<Rightarrow> Some (isInWatchlist (movie_id c) a)),
                view_player = (if isPlaying v then Some (title', movie_id c, type') else None)\<rparr>))"

subsection \<open>Concrete values\<close>

text \<open>
  Stand-ins for the two platform functions in concrete runs: the id keeps its text, and
  the year is read as the first four characters of the date.
\<close>

definition id_text :: "string \<Rightarrow> string" where
  "id_text i = i"

definition first_four :: "string \<Rightarrow> string" where
  "first_four d = take 4 d"

definition fight_club :: Movie where
  "fight_club = \<lparr>movie_id = 550, title = Some ''Fight Club'', name = None,
                  backdrop_path = Some ''/fc.jpg'', release_date = Some ''1999-10-15'',
                  first_air_date = None, runtime = Some 139, number_of_seasons = None\<rparr>"

text \<open>A record whose title and release date are empty strings and whose runtime is 0.\<close>

definition announced :: Movie where
  "announced = \<lparr>movie_id = 551, title = Some [], name = None, backdrop_path = None,
                 release_date = Some [], first_air_date = None, runtime = Some 0,
                 number_of_seasons = None\<rparr>"


section \<open>Properties of the Session Store\<close>

lemma succeeded_iff: "succeeded reply \<longleftrightarrow> (\<exists>r. reply = Resolved r \<and> resp_error r = None)"
  by (cases reply) auto

lemma write_then_set_succeeded:
  "succeeded reply \<Longrightarrow> write_then_set msg p u u' reply s = (Inr (), s\<lparr>user := Some u'\<rparr>, [ProfilesUpdate p (user_id u)])"
  by (auto simp: succeeded_iff write_then_set_def)

lemma addToWatchlist_through_current:
  "addToWatchlist_through s movieId reply s = addToWatchlist movieId reply s"
  by (simp add: addToWatchlist_through_def addToWatchlist_def)

lemma removeFromWatchlist_through_current:
  "removeFromWatchlist_through s movieId reply s = removeFromWatchlist movieId reply s"
  by (simp add: removeFromWatchlist_through_def removeFromWatchlist_def)

lemma call_watchlist_succeeded:
  assumes "user rendered = Some u" and "succeeded reply"
  shows "fst (snd (call_watchlist rendered c reply s))
           = s\<lparr>user := Some (u\<lparr>watchlist := spec_step c (watchlist u)\<rparr>)\<rparr>"
  using assms
  by (cases c)
    (simp_all add: addToWatchlist_through_def removeFromWatchlist_through_def
      write_then_set_succeeded Let_def)

lemma signed_out_before_load_auth:
  "auth signed_out_before_load = \<lparr>user = Some alice, session = None, loading = False\<rparr>"
  by (simp add: signed_out_before_load_def initial_Runtime_def initial_AuthState_def
      onAuthStateChange_def alice_session_def alice_principal_def alice_row_def alice_def
      loadUserProfile_def ok_def)

text \<open>
  C1, as stated, fails. Two \<open>addToWatchlist\<close> calls made through one render (a second
  click on the toggle before the first write has returned and the page has rendered
  again) both extend that render's watchlist; both writes succeed, and the store ends
  with the id appended once, where the fold over the two calls appends it twice.
\<close>

theorem same_render_calls_counterexample:
  "user signed_in = Some alice
   \<and> list_all succeeded [ok ''x'', ok ''y'']
   \<and> user (snd (run_steps [Call (Add 7) (ok ''x''), Call (Add 7) (ok ''y'')] (signed_in, signed_in)))
       = Some (alice\<lparr>watchlist := [550, 13, 550, 7]\<rparr>)
   \<and> spec_watchlist [Add 7, Add 7] (watchlist alice) = [550, 13, 550, 7, 7]"
  by (simp add: signed_in_def ok_def addToWatchlist_through_def write_then_set_def
      spec_watchlist_def alice_def Let_def)

text \<open>
  C1, amended. While a user is held, a sequence of \<open>addToWatchlist\<close>/\<open>removeFromWatchlist\<close>
  calls whose remote writes all succeed, each call made through a render of the store
  as the call before left it, leaves exactly the watchlist obtained by folding append
  and filter-out over the initial watchlist in call order, and changes nothing else in
  the store. The replies appear only in the hypothesis that they succeeded: their
  content has no part in the result.
\<close>

theorem rendered_calls_fold:
  assumes "user s = Some u" and "list_all succeeded (map snd crs)"
  shows "snd (run_steps (each_rendered crs) (rendered, s))
           = s\<lparr>user := Some (u\<lparr>watchlist := spec_watchlist (map fst crs) (watchlist u)\<rparr>)\<rparr>"
  using assms
proof (induction crs arbitrary: rendered s u)
  case Nil
  then show ?case by (simp add: spec_watchlist_def)
next
  case (Cons cr crs)
  obtain c reply where cr: "cr = (c, reply)" by (cases cr)
  let ?u1 = "u\<lparr>watchlist := spec_step c (watchlist u)\<rparr>"
  let ?s1 = "s\<lparr>user := Some ?u1\<rparr>"
  from Cons.prems cr have step: "fst (snd (call_watchlist s c reply s)) = ?s1"
    by (simp add: call_watchlist_succeeded)
  have "user ?s1 = Some ?u1" by simp
  moreover from Cons.prems have "list_all succeeded (map snd crs)" by simp
  ultimately have "snd (run_steps (each_rendered crs) (s, ?s1)) =
      ?s1\<lparr>user := Some (?u1\<lparr>watchlist := spec_watchlist (map fst crs) (watchlist ?u1)\<rparr>)\<rparr>"
    by (rule Cons.IH)
  with step cr show ?case by (simp add: spec_watchlist_def)
qed

theorem rendered_calls_fold_witness:
  "user signed_in = Some alice
   \<and> list_all succeeded (map snd [(Add 7, ok ''x''), (Remove 550, ok ''y''), (Add 7, ok [])])
   \<and> snd (run_steps (each_rendered [(Add 7, ok ''x''), (Remove 550, ok ''y''), (Add 7, ok [])])
        (initial_AuthState, signed_in))
       = signed_in\<lparr>user := Some (alice\<lparr>watchlist := [13, 7, 7]\<rparr>)\<rparr>"
proof -
  have u: "user signed_in = Some alice" by (simp add: signed_in_def)
  have r: "list_all succeeded (map snd [(Add 7, ok ''x''), (Remove 550, ok ''y''), (Add 7, ok [])])"
    by (simp add: ok_def)
  show ?thesis
    using u r rendered_calls_fold [OF u r, of initial_AuthState]
    by (simp add: spec_watchlist_def alice_def)
qed

text \<open>
  C10. While a user is held, after a \<open>removeFromWatchlist\<close> of an id whose remote write
  succeeded, \<open>isInWatchlist\<close> of that id is false, however often the id occurred before.
\<close>

theorem remove_then_not_in_watchlist:
  assumes "user s = Some u" and "succeeded reply"
  shows "\<not> isInWatchlist movieId (fst (snd (removeFromWatchlist movieId reply s)))"
  using assms
  by (simp add: removeFromWatchlist_def write_then_set_succeeded isInWatchlist_def Let_def)

theorem remove_then_not_in_watchlist_witness:
  "user signed_in = Some alice \<and> succeeded (ok ''body'') \<and> count_list (watchlist alice) 550 = 2
   \<and> \<not> isInWatchlist 550 (fst (snd (removeFromWatchlist 550 (ok ''body'') signed_in)))"
proof -
  have u: "user signed_in = Some alice" by (simp add: signed_in_def)
  have r: "succeeded (ok ''body'')" by (simp add: ok_def)
  show ?thesis
    using u r remove_then_not_in_watchlist [OF u r, of 550]
    by (simp add: alice_def)
qed

text \<open>
  C2, as stated, fails: the operations are gated on the user, not on the session. In the
  state reached when a sign-out event is handled before the deferred profile load of an
  earlier sign-in answers, the session is null, and \<open>addToWatchlist\<close> still writes to the
  backend and changes the local watchlist.
\<close>

theorem null_session_add_counterexample:
  "session (auth signed_out_before_load) = None
   \<and> user (fst (snd (addToWatchlist 7 (ok ''body'') (auth signed_out_before_load))))
        = Some (alice\<lparr>watchlist := [550, 13, 550, 7]\<rparr>)
   \<and> fst (snd (addToWatchlist 7 (ok ''body'') (auth signed_out_before_load)))
        \<noteq> auth signed_out_before_load
   \<and> remote_writes (snd (snd (addToWatchlist 7 (ok ''body'') (auth signed_out_before_load))))
        = [(WatchlistPayload [550, 13, 550, 7], ''u1'')]"
  by (simp add: signed_out_before_load_auth addToWatchlist_def write_then_set_def ok_def
      alice_def Let_def)

text \<open>
  C2, amended. Whenever the user (the Identity) is null, \<open>updateProfile\<close>,
  \<open>completeOnboarding\<close>, \<open>addToWatchlist\<close> and \<open>removeFromWatchlist\<close> resolve at once,
  leave the state as it is and have no effect at all, so no remote write is issued.
\<close>

theorem null_user_noop:
  assumes "user s = None"
  shows "updateProfile updates r1 s = (Inr (), s, [])
       \<and> completeOnboarding avatar' genres r2 s = (Inr (), s, [])
       \<and> addToWatchlist movieId r3 s = (Inr (), s, [])
       \<and> removeFromWatchlist movieId' r4 s = (Inr (), s, [])"
  using assms
  by (simp add: updateProfile_def completeOnboarding_def addToWatchlist_def removeFromWatchlist_def)

theorem null_user_noop_witness:
  "user initial_AuthState = None
   \<and> updateProfile \<lparr>upd_id = None, upd_username = Some ''al'', upd_email = None, upd_avatar = None,
         upd_genre_preferences = None, upd_onboarding_completed = None, upd_watchlist = None\<rparr>
       (ok ''a'') initial_AuthState = (Inr (), initial_AuthState, [])
   \<and> completeOnboarding ''A'' [28, 12] (ok ''b'') initial_AuthState = (Inr (), initial_AuthState, [])
   \<and> addToWatchlist 550 (ok ''c'') initial_AuthState = (Inr (), initial_AuthState, [])
   \<and> removeFromWatchlist 13 (ok ''d'') initial_AuthState = (Inr (), initial_AuthState, [])"
proof -
  have u: "user initial_AuthState = None" by (simp add: initial_AuthState_def)
  show ?thesis
    using u null_user_noop [OF u, of
        "\<lparr>upd_id = None, upd_username = Some ''al'', upd_email = None, upd_avatar = None,
          upd_genre_preferences = None, upd_onboarding_completed = None, upd_watchlist = None\<rparr>"
        "ok ''a''" "''A''" "[28, 12]" "ok ''b''" 550 "ok ''c''" 13 "ok ''d''"]
    by simp
qed

text \<open>
  What \<open>logout\<close> does by the way the awaited sign-out settles. When the promise resolves,
  to whatever value, \<open>logout\<close> resolves, user and session are null afterwards and one
  navigation, to \<open>/auth\<close>, has been issued. When the promise is rejected, \<open>logout\<close> is
  rejected with the same error, the state is as before and nothing is navigated.
\<close>

lemma logout_by_settlement:
  "fst (logout (Resolved r) s) = Inr ()
   \<and> user (fst (snd (logout (Resolved r) s))) = None
   \<and> session (fst (snd (logout (Resolved r) s))) = None
   \<and> navigations (snd (snd (logout (Resolved r) s))) = [''/auth'']
   \<and> fst (logout (Rejected e) s) = Inl e
   \<and> fst (snd (logout (Rejected e) s)) = s
   \<and> navigations (snd (snd (logout (Rejected e) s))) = []"
  by (simp add: logout_def)

text \<open>
  C3. The claim asks that a failed provider sign-out is thrown again and leaves user and
  session as they were. The code does so only when the awaited call is rejected. When
  the provider reports the failure in its reply, as \<open>login\<close> and \<open>signup\<close> expect it to,
  \<open>logout\<close> resolves, clears user and session and navigates to \<open>/auth\<close>.
\<close>

theorem logout_failed_reply_clears:
  "logout (Resolved \<lparr>auth_error = Some (Error ''network'')\<rparr>) signed_in
     = (Inr (), signed_in\<lparr>user := None, session := None\<rparr>, [SignOutGlobal, Navigate ''/auth''])"
  by (simp add: logout_def)

text \<open>
  C4, as stated, fails for the same reason as C2: with a null session and a user still
  held, \<open>isInWatchlist\<close> answers true for an id of that user's watchlist.
\<close>

theorem null_session_member_counterexample:
  "session (auth signed_out_before_load) = None \<and> isInWatchlist 550 (auth signed_out_before_load)"
  by (simp add: signed_out_before_load_auth isInWatchlist_def alice_def)

text \<open>
  C4, amended. \<open>isInWatchlist\<close> is false for every id whenever the user (the Identity) is
  null; when a user is held it is true exactly when the id occurs in that user's
  watchlist. It reads the state and changes nothing.
\<close>

theorem isInWatchlist_membership:
  "(user s = None \<longrightarrow> \<not> isInWatchlist movieId s)
   \<and> (user s = Some u \<longrightarrow> isInWatchlist movieId s = (movieId \<in> set (watchlist u)))"
  by (simp add: isInWatchlist_def)

theorem isInWatchlist_membership_witness:
  "user initial_AuthState = None \<and> \<not> isInWatchlist 550 initial_AuthState
   \<and> user signed_in = Some alice \<and> isInWatchlist 13 signed_in \<and> \<not> isInWatchlist 7 signed_in"
  using isInWatchlist_membership [of initial_AuthState 550 alice]
    isInWatchlist_membership [of signed_in 13 alice]
    isInWatchlist_membership [of signed_in 7 alice]
  by (simp add: initial_AuthState_def signed_in_def alice_def)

text \<open>
  C8. On a sign-in event whose session carries a principal, the handler itself sets the
  session, leaves the user as it is and reads nothing from the backend; all it does
  about the profile is one \<open>setTimeout\<close> with delay 0. In the event loop the load is
  therefore a timer behind those already waiting, run in a later turn, and that timer is
  the profile load followed by clearing the loading flag.
\<close>

theorem sign_in_load_deferred:
  assumes "session_user ss = Some authUser"
  shows "fst (onAuthStateChange ''SIGNED_IN'' (Some ss) s) = s\<lparr>session := Some ss\<rparr>
       \<and> remote_reads (snd (onAuthStateChange ''SIGNED_IN'' (Some ss) s)) = []
       \<and> snd (onAuthStateChange ''SIGNED_IN'' (Some ss) s)
           = [ConsoleLog ''Auth state changed:'', SetTimeout (LoadUserProfileTask authUser) 0]
       \<and> user (auth (occur (AuthEvent ''SIGNED_IN'' (Some ss)) rt)) = user (auth rt)
       \<and> timers (occur (AuthEvent ''SIGNED_IN'' (Some ss)) rt) = timers rt @ [LoadUserProfileTask authUser]
       \<and> run_task (LoadUserProfileTask authUser) reply s1
           = (fst (loadUserProfile authUser reply s1)\<lparr>loading := False\<rparr>,
              snd (loadUserProfile authUser reply s1))"
  using assms
  by (simp add: onAuthStateChange_def split: prod.split)

theorem sign_in_load_deferred_witness:
  "session_user alice_session = Some alice_principal
   \<and> user (auth (occur (AuthEvent ''SIGNED_IN'' (Some alice_session)) initial_Runtime)) = None
   \<and> timers (occur (AuthEvent ''SIGNED_IN'' (Some alice_session)) initial_Runtime)
       = [LoadUserProfileTask alice_principal]
   \<and> user (auth (occur (TimerFires (ok (Some alice_row)))
         (occur (AuthEvent ''SIGNED_IN'' (Some alice_session)) initial_Runtime))) = Some alice"
proof -
  have p: "session_user alice_session = Some alice_principal" by (simp add: alice_session_def)
  show ?thesis
    using p sign_in_load_deferred [OF p, of initial_AuthState initial_Runtime]
    by (simp add: initial_Runtime_def initial_AuthState_def loadUserProfile_def ok_def
        alice_row_def alice_def alice_principal_def)
qed

section \<open>Properties of the signup form\<close>

text \<open>
  C5. Submitting the signup form calls \<open>signup\<close> only when the password equals its
  confirmation and has at least 6 characters, and then once, with the form's email,
  password and username. With password and confirmation \<open>abc12\<close> (5 characters), and with
  password \<open>abcdef\<close> and confirmation \<open>xyzxyz\<close>, no call is made, whatever the rest of the
  form holds.
\<close>

theorem signup_called_only_when_valid:
  "signup_calls (snd (handleSubmit reply f))
     = (if password f = confirmPassword f \<and> 6 \<le> length (password f)
        then [(form_email f, password f, form_username f)] else [])
   \<and> signup_calls (snd (handleSubmit reply (f\<lparr>password := ''abc12'', confirmPassword := ''abc12''\<rparr>))) = []
   \<and> signup_calls (snd (handleSubmit reply (f\<lparr>password := ''abcdef'', confirmPassword := ''xyzxyz''\<rparr>))) = []"
  by (cases reply) (simp_all add: handleSubmit_def)

section \<open>Properties of the Content Detail View\<close>

lemma visit_resolved:
  "or_string id' [] \<noteq> [] \<Longrightarrow>
     fst (visit parseInt id' type' (Resolved c) v) = v\<lparr>content := Some c, page_loading := False\<rparr>"
  by (simp add: visit_def fetchContent_def Let_def)


text \<open>
  C6, as stated, fails. For a fetched movie whose title and release date are empty
  strings and whose runtime is 0, the rendered title is the fallback literal and not the
  fetched title, no year element is rendered, and the runtime slot holds the number 0
  instead of the hours and minutes element.
\<close>

theorem movie_details_counterexample:
  "title announced = Some [] \<and> release_date announced = Some [] \<and> runtime announced = Some 0
   \<and> render first_four (Some ''551'') ''movie'' signed_in
        (fst (visit id_text (Some ''551'') ''movie'' (Resolved announced) initial_DetailPage))
      = DetailsView
          \<lparr>view_title = ''Unknown Title'',
           view_backdropUrl =
             ''https://images.unsplash.com/photo-1489599904276-39c2bb2d7b64?w=1920&h=1080&fit=crop'',
           view_year = EmptyString,
           view_runtime = Number 0,
           view_seasons = Undefined,
           view_watchlist_button = Some False,
           view_player = None\<rparr>
   \<and> (Number 0 :: (nat \<times> nat) slot) \<noteq> Shown (0 div 60, 0 mod 60)"
  by (simp add: visit_resolved render_def announced_def initial_DetailPage_def display_title_def
      signed_in_def isInWatchlist_def alice_def first_four_def Let_def)

text \<open>
  C6, amended. On a visit with kind movie and an id, after a successful metadata fetch
  the details are rendered, and each of the following holds by itself: if the fetched
  title is a non-empty string the rendered title equals it; if the fetched release date
  is a non-empty string the rendered year is the year the platform reads from it; and
  for every positive whole runtime the runtime is rendered as \<open>runtime div 60\<close> hours and
  \<open>runtime mod 60\<close> minutes.
\<close>

theorem movie_details_rendered:
  assumes "id' = Some i" and "i \<noteq> []"
  shows "\<exists>dv. render getFullYear id' ''movie'' a (fst (visit parseInt id' ''movie'' (Resolved c) v))
            = DetailsView dv
          \<and> (\<forall>t. title c = Some t \<and> t \<noteq> [] \<longrightarrow> view_title dv = t)
          \<and> (\<forall>d. release_date c = Some d \<and> d \<noteq> [] \<longrightarrow> view_year dv = Shown (getFullYear d))
          \<and> (\<forall>r. runtime c = Some r \<and> 0 < r \<longrightarrow> view_runtime dv = Shown (r div 60, r mod 60))"
  using assms
  by (simp add: visit_resolved render_def display_title_def Let_def)

theorem movie_details_rendered_witness:
  "title fight_club = Some ''Fight Club'' \<and> release_date fight_club = Some ''1999-10-15''
   \<and> runtime fight_club = Some 139
   \<and> (\<exists>dv. render first_four (Some ''550'') ''movie'' signed_in
              (fst (visit id_text (Some ''550'') ''movie'' (Resolved fight_club) initial_DetailPage))
            = DetailsView dv
          \<and> view_title dv = ''Fight Club''
          \<and> view_year dv = Shown ''1999''
          \<and> view_runtime dv = Shown (2, 19))"
proof -
  have t: "title fight_club = Some ''Fight Club''" and d: "release_date fight_club = Some ''1999-10-15''"
    and r: "runtime fight_club = Some 139"
    by (simp_all add: fight_club_def)
  have n: "''550'' \<noteq> []" by simp
  from movie_details_rendered [OF refl n, of first_four signed_in id_text fight_club initial_DetailPage]
  obtain dv where
    dv: "render first_four (Some ''550'') ''movie'' signed_in
           (fst (visit id_text (Some ''550'') ''movie'' (Resolved fight_club) initial_DetailPage))
         = DetailsView dv"
    and dt: "\<forall>t. title fight_club = Some t \<and> t \<noteq> [] \<longrightarrow> view_title dv = t"
    and dd: "\<forall>d. release_date fight_club = Some d \<and> d \<noteq> [] \<longrightarrow> view_year dv = Shown (first_four d)"
    and dr: "\<forall>r. runtime fight_club = Some r \<and> 0 < r \<longrightarrow> view_runtime dv = Shown (r div 60, r mod 60)"
    by blast
  from dt t have "view_title dv = ''Fight Club''" by simp
  moreover from dd d have "view_year dv = Shown ''1999''" by (simp add: first_four_def)
  moreover from dr r have "view_runtime dv = Shown (2, 19)" by simp
  ultimately show ?thesis using t d r dv by blast
qed




text \<open>
  C9. In the watchlist toggle, when the content is null the only effect is the
  "Sign in required" notification, also for a signed-in user; an \<open>addToWatchlist\<close> or
  \<open>removeFromWatchlist\<close> call is made exactly when both the user and the content are
  non-null.
\<close>

theorem toggle_needs_user_and_content:
  "(content v = None \<longrightarrow>
      handleWatchlistToggle a v
        = [Toast ''Sign in required'' ''Please sign in to add items to your watchlist.'' True])
   \<and> (watchlist_calls (handleWatchlistToggle a v) \<noteq> [] \<longleftrightarrow> user a \<noteq> None \<and> content v \<noteq> None)"
  by (auto simp: handleWatchlistToggle_def split: option.splits)

theorem toggle_needs_user_and_content_witness:
  "user signed_in = Some alice \<and> content initial_DetailPage = None
   \<and> (handleWatchlistToggle signed_in initial_DetailPage :: unit page_effect list)
       = [Toast ''Sign in required'' ''Please sign in to add items to your watchlist.'' True]
   \<and> watchlist_calls (handleWatchlistToggle signed_in initial_DetailPage :: unit page_effect list) = []"
  using toggle_needs_user_and_content [of initial_DetailPage signed_in, where ?'a = unit and ?'b = unit]
  by (simp add: initial_DetailPage_def signed_in_def)

end
